theory Spec2Isabelle
  imports Main "HOL-Library.Word"
begin

unbundle bit_operations_syntax

section \<open>sqlite3perf: the generate and bench commands\<close>

text \<open>
  A shallow embedding of the two commands of sqlite3perf: \<open>generateCmd\<close>
  (cmd/generate.go) and \<open>benchCmd\<close> (cmd/bench.go). Everything the commands obtain from
  outside (the SQLite store, crypto/rand, the wall clock) is an explicit argument; SHA256
  is an arbitrary function \<open>sha256\<close> from byte strings to byte strings, so every
  theorem holds for the real digest. A run of a command is a total function to the way the
  process ended, the lines it wrote and the store it left. The runs are those of the main
  goroutine; the progress goroutines are described apart, below.
\<close>

subsection \<open>Bytes and hexadecimal text (encoding/hex)\<close>

type_synonym byte = "8 word"

datatype hex_error = InvalidByteError char | ErrLength

definition hextable :: string where
  "hextable = ''0123456789abcdef''"

text \<open>\<open>hex.EncodeToString\<close>: two digits per byte, \<open>hextable[v>>4]\<close> then
  \<open>hextable[v&0x0f]\<close>.\<close>

definition encode_byte :: "byte \<Rightarrow> string" where
  "encode_byte v = [hextable ! unat (drop_bit 4 v), hextable ! unat (v AND 0x0f)]"

fun hex_encode :: "byte list \<Rightarrow> string" where
  "hex_encode [] = []"
| "hex_encode (v # src) = encode_byte v @ hex_encode src"

text \<open>The reverse table of encoding/hex: digits, lower case and upper case letters.\<close>

definition fromHexChar :: "char \<Rightarrow> byte option" where
  "fromHexChar c =
     (let n = (of_char c :: nat) in
      if 48 \<le> n \<and> n \<le> 57 then Some (of_nat (n - 48))
      else if 97 \<le> n \<and> n \<le> 102 then Some (of_nat (n - 97 + 10))
      else if 65 \<le> n \<and> n \<le> 70 then Some (of_nat (n - 65 + 10))
      else None)"

text \<open>\<open>hex.DecodeString\<close>: pairs of digits from the left; the first bad character is
  reported, and an odd length is reported only when every character is a digit. The bytes
  decoded before an error are dropped here: bench overwrites them before it reads them.\<close>

fun hex_decode :: "string \<Rightarrow> hex_error + byte list" where
  "hex_decode [] = Inr []"
| "hex_decode [p] =
     (case fromHexChar p of None \<Rightarrow> Inl (InvalidByteError p) | Some a \<Rightarrow> Inl ErrLength)"
| "hex_decode (p # q # src) =
     (case fromHexChar p of
        None \<Rightarrow> Inl (InvalidByteError p)
      | Some a \<Rightarrow>
         (case fromHexChar q of
            None \<Rightarrow> Inl (InvalidByteError q)
          | Some b \<Rightarrow>
             (case hex_decode src of
                Inl e \<Rightarrow> Inl e
              | Inr dst \<Rightarrow> Inr ((push_bit 4 a OR b) # dst))))"

subsection \<open>Flags\<close>

text \<open>The package variables the flags are bound to, with the defaults of the two
  \<open>init\<close> functions: \<open>--db\<close>, \<open>--records\<close>, \<open>--vacuum\<close>, \<open>--interval\<close>. The flags are
  plain integer, boolean and string flags: no value is rejected.\<close>

record config =
  dbPath :: string
  numRecs :: int
  vacuum :: bool
  logSeconds :: int

definition default_config :: config where
  "default_config =
     \<lparr>dbPath = ''./sqlite3perf.db'', numRecs = 1000, vacuum = False, logSeconds = 2\<rparr>"

subsection \<open>The store\<close>

text \<open>Table \<open>bench (ID int PRIMARY KEY ASC, rand TEXT, hash TEXT)\<close>: absent, or its rows
  in the order they were inserted. \<open>executed\<close> lists every statement handed to
  \<open>Exec\<close>, oldest first, whether it succeeded or not.\<close>

record row =
  ID :: int
  rand :: string
  hash :: string

datatype stmt = DropTableIfExists | CreateTable | InsertInto int string string | Vacuum

record store =
  bench_table :: "row list option"
  executed :: "stmt list"

type_synonym err = string

text \<open>What the four statements of generate.go do to the table when the store itself
  works: \<open>DROP TABLE IF EXISTS bench\<close>, \<open>CREATE TABLE bench (...)\<close>,
  \<open>INSERT INTO bench VALUES(?,?,?)\<close> with its three arguments, \<open>VACUUM\<close>.\<close>

fun apply_stmt :: "stmt \<Rightarrow> row list option \<Rightarrow> err + row list option" where
  "apply_stmt DropTableIfExists t = Inr None"
| "apply_stmt CreateTable t =
     (case t of None \<Rightarrow> Inr (Some []) | Some rows \<Rightarrow> Inl ''table bench already exists'')"
| "apply_stmt (InsertInto k r d) t =
     (case t of
        None \<Rightarrow> Inl ''no such table: bench''
      | Some rows \<Rightarrow>
         if k \<in> ID ` set rows then Inl ''UNIQUE constraint failed: bench.ID''
         else Inr (Some (rows @ [\<lparr>ID = k, rand = r, hash = d\<rparr>])))"
| "apply_stmt Vacuum t = Inr t"

text \<open>\<open>Exec\<close>: the environment may fail the call (\<open>fault\<close>: an I/O error, a locked
  file); otherwise the statement is applied. A failed statement leaves the table as it was.\<close>

definition db_exec :: "err option \<Rightarrow> stmt \<Rightarrow> store \<Rightarrow> err option \<times> store" where
  "db_exec fault q s =
     (let s1 = s\<lparr>executed := executed s @ [q]\<rparr> in
      case fault of
        Some e \<Rightarrow> (Some e, s1)
      | None \<Rightarrow>
         (case apply_stmt q (bench_table s) of
            Inl e \<Rightarrow> (Some e, s1)
          | Inr t \<Rightarrow> (None, s1\<lparr>bench_table := t\<rparr>)))"

text \<open>\<open>db.Prepare\<close> returns a statement, or a nil pointer and an error.\<close>

datatype stmt_ptr = NilStmt | InsertStmt

definition db_prepare :: "err option \<Rightarrow> store \<Rightarrow> stmt_ptr \<times> err option" where
  "db_prepare fault s =
     (case fault of
        Some e \<Rightarrow> (NilStmt, Some e)
      | None \<Rightarrow>
         (case bench_table s of
            None \<Rightarrow> (NilStmt, Some ''no such table: bench'')
          | Some rows \<Rightarrow> (InsertStmt, None)))"

subsection \<open>The environment of a run\<close>

text \<open>What a cursor delivers for one \<open>rows.Next()\<close>, \<open>rows.Scan(&ID, &rand, &hash)\<close>.\<close>

datatype scan = Scanned row | ScanError err

text \<open>
  One record for both commands: each field is the result the environment gives to one call
  of the source.
  \<^item> \<open>open_err\<close>: \<open>sql.Open\<close>; \<open>drop_err\<close>, \<open>create_err\<close>, \<open>vacuum_err\<close>: a fault of
    the three \<open>db.Exec\<close> calls; \<open>prepare_err\<close>: a fault of \<open>db.Prepare\<close>;
  \<^item> \<open>rand_read k\<close>: the (k+1)-th \<open>rand.Read(b)\<close>, an error or the bytes put in b;
  \<^item> \<open>insert_err k\<close>: a fault of the (k+1)-th \<open>st.Exec\<close>;
  \<^item> \<open>query_err\<close>: \<open>db.Query\<close>; \<open>fetched\<close>: the rows the cursor delivers until
    \<open>rows.Next()\<close> is false; \<open>iter_err\<close>: \<open>rows.Err()\<close> after that;
  \<^item> \<open>rows_close_err\<close>, \<open>db_close_err\<close>: the deferred \<open>rows.Close()\<close>, \<open>db.Close()\<close>;
  \<^item> \<open>clock_start\<close>, \<open>clock_stop\<close>: the clock, in nanoseconds, when \<open>start\<close> is taken
    and when the loop has ended.
\<close>

record env =
  open_err :: "err option"
  drop_err :: "err option"
  create_err :: "err option"
  prepare_err :: "err option"
  rand_read :: "nat \<Rightarrow> err + byte list"
  insert_err :: "nat \<Rightarrow> err option"
  vacuum_err :: "err option"
  db_close_err :: "err option"
  query_err :: "err option"
  fetched :: "scan list"
  iter_err :: "err option"
  rows_close_err :: "err option"
  clock_start :: int
  clock_stop :: int

subsection \<open>Output and the end of a process\<close>

text \<open>
  One constructor per line the main goroutine writes, with its integer and text arguments.
  Arguments computed in float64 (the percentage, records per second) and durations other
  than the two averages are left out: float64 arithmetic does not trap. The lines of the
  progress goroutine are not part of a run's output: they interleave with it.
\<close>

datatype msg =
    Generating int
  | OpeningDatabase
  | ErrorOpening string err
  | DroppingTable
  | CouldNotDelete err
  | CreatingTable
  | CouldNotCreate err
  | SettingUp
  | StartingInserts
  | CanNotReadRandom err
  | InsertingFailed err
  | Written int int
  | AverageTimePerRecord int
  | Vacuuming
  | VacuumError err
  | ProceedWithCaution
  | VacuumationTook
  | RunningBenchmark
  | PrintedErrorOpening string err
  | FatalErr err
  | TimeAfterQuery
  | BeginningLoop
  | FirstResult int string string
  | CouldNotDecode hex_error
  | HashMismatch
  | RowsProcessed int
  | FinishedLoop
  | AveragePerRecord int int

datatype panic = IntegerDivideByZero | NilPointerDereference

text \<open>How the process ends: the command returns (exit status 0), \<open>os.Exit(1)\<close>
  (directly or through \<open>log.Fatal\<close>), or a run-time panic (exit status 2).\<close>

datatype exit = Return | Exit1 | Panicked panic

datatype abort = Fatal msg | Panic panic

text \<open>\<open>discarded\<close>: the errors that calls returned and the source dropped, in the order
  of the calls.\<close>

record run =
  outcome :: exit
  printed :: "msg list"
  discarded :: "err list"

definition errors_of :: "err option list \<Rightarrow> err list" where
  "errors_of xs = List.map_filter (\<lambda>x. x) xs"

text \<open>\<open>log.Fatal\<close> writes its line and exits at once: deferred calls do not run. After a
  return or a panic they run, and what they return is dropped.\<close>

definition finish :: "abort option \<Rightarrow> msg list \<Rightarrow> err list \<Rightarrow> err list \<Rightarrow> run" where
  "finish a out dropped deferred =
     (case a of
        None \<Rightarrow> \<lparr>outcome = Return, printed = out, discarded = dropped @ deferred\<rparr>
      | Some (Fatal m) \<Rightarrow> \<lparr>outcome = Exit1, printed = out @ [m], discarded = dropped\<rparr>
      | Some (Panic p) \<Rightarrow> \<lparr>outcome = Panicked p, printed = out, discarded = dropped @ deferred\<rparr>)"

text \<open>Go's integer quotient truncates towards zero. Both commands divide by a run-time
  value: a zero divisor is the panic branch of the caller, never an argument of \<open>quo\<close>.\<close>

definition quo :: "int \<Rightarrow> int \<Rightarrow> int" where
  "quo x y = sgn x * sgn y * (\<bar>x\<bar> div \<bar>y\<bar>)"

subsection \<open>generate\<close>

text \<open>
  The insert loop, \<open>for i = 0; i < numRecs; i++\<close>. \<open>h\<close> is the hasher (the bytes written
  since the last \<open>Reset\<close>; \<open>h.Sum(nil)\<close> is \<open>sha256 h\<close>), \<open>st\<close> the prepared statement.
  The result is how the loop ended, the final \<open>i\<close> and the store.
\<close>

function insert_loop ::
  "(byte list \<Rightarrow> byte list) \<Rightarrow> env \<Rightarrow> stmt_ptr \<Rightarrow> int \<Rightarrow> int \<Rightarrow> byte list \<Rightarrow> store
     \<Rightarrow> abort option \<times> int \<times> store" where
  "insert_loop sha256 ev st n i h s =
     (if i < n then
        (case rand_read ev (nat i) of
           Inl e \<Rightarrow> (Some (Fatal (CanNotReadRandom e)), i, s)
         | Inr b \<Rightarrow>
            (let h1 = h @ b in
             case st of
               NilStmt \<Rightarrow> (Some (Panic NilPointerDereference), i, s)
             | InsertStmt \<Rightarrow>
                (case db_exec (insert_err ev (nat i))
                        (InsertInto i (hex_encode b) (hex_encode (sha256 h1))) s of
                   (Some e, s') \<Rightarrow> (Some (Fatal (InsertingFailed e)), i, s')
                 | (None, s') \<Rightarrow> insert_loop sha256 ev st n (i + 1) [] s')))
      else (None, i, s))"
  by pat_completeness auto
termination
  by (relation "measure (\<lambda>(sha256, ev, st, n, i, h, s). nat (n - i))") auto

declare insert_loop.simps [simp del]

text \<open>The command. The error of \<open>db.Prepare\<close> is assigned to the blank identifier.\<close>

definition generateCmd ::
  "(byte list \<Rightarrow> byte list) \<Rightarrow> env \<Rightarrow> config \<Rightarrow> store \<Rightarrow> run \<times> store" where
  "generateCmd sha256 ev cfg s0 =
     (let out0 = [Generating (numRecs cfg), OpeningDatabase] in
      case open_err ev of
        Some e \<Rightarrow> (finish (Some (Fatal (ErrorOpening (dbPath cfg) e))) out0 [] [], s0)
      | None \<Rightarrow>
     (let out1 = out0 @ [DroppingTable] in
      case db_exec (drop_err ev) DropTableIfExists s0 of
        (Some e, s1) \<Rightarrow> (finish (Some (Fatal (CouldNotDelete e))) out1 [] [], s1)
      | (None, s1) \<Rightarrow>
     (let out2 = out1 @ [CreatingTable] in
      case db_exec (create_err ev) CreateTable s1 of
        (Some e, s2) \<Rightarrow> (finish (Some (Fatal (CouldNotCreate e))) out2 [] [], s2)
      | (None, s2) \<Rightarrow>
     (let out3 = out2 @ [SettingUp];
          (st, perr) = db_prepare (prepare_err ev) s2;
          dropped = errors_of [perr];
          deferred = errors_of [db_close_err ev];
          out4 = out3 @ [StartingInserts]
      in
      case insert_loop sha256 ev st (numRecs cfg) 0 [] s2 of
        (Some a, i, s3) \<Rightarrow> (finish (Some a) out4 dropped deferred, s3)
      | (None, i, s3) \<Rightarrow>
         (let dur = clock_stop ev - clock_start ev;
              out5 = out4 @ [Written i (numRecs cfg)]
          in
          if numRecs cfg = 0
          then (finish (Some (Panic IntegerDivideByZero)) out5 dropped deferred, s3)
          else
           (let out6 = out5 @ [AverageTimePerRecord (quo dur (numRecs cfg))] in
            if vacuum cfg then
              (case db_exec (vacuum_err ev) Vacuum s3 of
                 (Some e, s4) \<Rightarrow>
                   (finish None
                      (out6 @ [Vacuuming, VacuumError e, ProceedWithCaution, VacuumationTook])
                      dropped deferred, s4)
               | (None, s4) \<Rightarrow>
                   (finish None (out6 @ [Vacuuming, VacuumationTook]) dropped deferred, s4))
            else (finish None out6 dropped deferred, s3)))))))"

subsection \<open>bench\<close>

text \<open>
  The loop \<open>for rows.Next()\<close> over what the cursor delivers. \<open>i\<close> counts the rows
  processed, \<open>h\<close> is the hasher, \<open>once\<close> tells whether \<open>once.Do\<close> has run. The result is
  how the loop ended, the final \<open>i\<close> and the output.
\<close>

fun bench_loop ::
  "(byte list \<Rightarrow> byte list) \<Rightarrow> scan list \<Rightarrow> int \<Rightarrow> byte list \<Rightarrow> bool \<Rightarrow> msg list
     \<Rightarrow> abort option \<times> int \<times> msg list" where
  "bench_loop sha256 [] i h once out = (None, i, out)"
| "bench_loop sha256 (ScanError e # rest) i h once out = (Some (Fatal (FatalErr e)), i, out)"
| "bench_loop sha256 (Scanned r # rest) i h once out =
     (let out1 = (if once then out else out @ [FirstResult (ID r) (rand r) (hash r)]);
          h1 = []
      in
      case hex_decode (rand r) of
        Inl e \<Rightarrow> bench_loop sha256 rest i h1 True (out1 @ [CouldNotDecode e])
      | Inr v \<Rightarrow>
         (let h2 = h1 @ v in
          if hex_encode (sha256 h2) \<noteq> hash r then (Some (Fatal HashMismatch), i, out1)
          else bench_loop sha256 rest (i + 1) [] True out1))"

definition benchCmd :: "(byte list \<Rightarrow> byte list) \<Rightarrow> env \<Rightarrow> config \<Rightarrow> run" where
  "benchCmd sha256 ev cfg =
     (let out0 = [RunningBenchmark] in
      case open_err ev of
        Some e \<Rightarrow>
          \<lparr>outcome = Exit1, printed = out0 @ [PrintedErrorOpening (dbPath cfg) e],
           discarded = []\<rparr>
      | None \<Rightarrow>
     (case query_err ev of
        Some e \<Rightarrow> finish (Some (Fatal (FatalErr e))) out0 [] []
      | None \<Rightarrow>
     (let out1 = out0 @ [TimeAfterQuery, BeginningLoop];
          deferred = errors_of [rows_close_err ev, db_close_err ev]
      in
      case bench_loop sha256 (fetched ev) 0 [] False out1 of
        (Some a, i, out2) \<Rightarrow> finish (Some a) out2 [] deferred
      | (None, i, out2) \<Rightarrow>
         (let e = clock_stop ev - clock_start ev;
              out3 = out2 @ [RowsProcessed i, FinishedLoop]
          in
          case iter_err ev of
            Some x \<Rightarrow> finish (Some (Fatal (FatalErr x))) out3 [] deferred
          | None \<Rightarrow>
             if i = 0 then finish (Some (Panic IntegerDivideByZero)) out3 [] deferred
             else finish None (out3 @ [AveragePerRecord (quo e i) e]) [] deferred))))"

subsection \<open>The progress goroutines\<close>

text \<open>
  Each command starts a goroutine that writes a progress line at every tick of a ticker
  until \<open>done\<close> is signalled. When a tick arrives depends on the scheduler and the clock,
  so the goroutines are not part of \<open>insert_loop\<close> and \<open>bench_loop\<close>: \<open>generateCmd\<close> and
  \<open>benchCmd\<close> are the runs of the main goroutine. Two things of the goroutines are
  sequential and are given here: the period of the ticker, and what a tick of generate
  computes from the counter it reads.

  \<open>time.Second\<close>, in nanoseconds, and the period each command hands to
  \<open>time.NewTicker\<close>: \<open>time.Second * 2\<close> in both.
\<close>

definition Second :: int where
  "Second = 1000000000"

definition generate_ticker :: "config \<Rightarrow> int" where
  "generate_ticker cfg = Second * 2"

definition bench_ticker :: "config \<Rightarrow> int" where
  "bench_ticker cfg = Second * 2"

text \<open>
  A tick of generate formats \<open>time.Since(start).Nanoseconds()/int64(i)\<close> with the counter
  \<open>i\<close> of the loop as it is at that moment: an integer division by zero, which ends the
  process, while \<open>i\<close> is still 0. So a run of generate whose first insert is still under
  way at the first tick (2 seconds after the start) dies there; \<open>generateCmd\<close> describes
  the runs in which no tick arrives while \<open>i = 0\<close>. A tick of bench only prints the
  counter.
\<close>

definition generate_tick :: "int \<Rightarrow> abort option" where
  "generate_tick i = (if i = 0 then Some (Panic IntegerDivideByZero) else None)"

subsection \<open>Predicates on rows and runs\<close>

text \<open>The invariant of a record: its \<open>rand\<close> column decodes, and its \<open>hash\<close> column is
  the hexadecimal text of the digest of the decoded bytes.\<close>

definition row_ok :: "(byte list \<Rightarrow> byte list) \<Rightarrow> row \<Rightarrow> bool" where
  "row_ok sha256 r =
     (case hex_decode (rand r) of Inl e \<Rightarrow> False | Inr v \<Rightarrow> hash r = hex_encode (sha256 v))"

definition undecodable :: "row \<Rightarrow> bool" where
  "undecodable r = (case hex_decode (rand r) of Inl e \<Rightarrow> True | Inr v \<Rightarrow> False)"

text \<open>A delivered row that bench verifies: scanned, decoded, digest equal.\<close>

definition verified :: "(byte list \<Rightarrow> byte list) \<Rightarrow> scan \<Rightarrow> bool" where
  "verified sha256 x = (case x of Scanned r \<Rightarrow> row_ok sha256 r | ScanError e \<Rightarrow> False)"

text \<open>A delivered row after which the loop of bench goes on: verified, or skipped.\<close>

definition passable :: "(byte list \<Rightarrow> byte list) \<Rightarrow> scan \<Rightarrow> bool" where
  "passable sha256 x =
     (case x of Scanned r \<Rightarrow> undecodable r \<or> row_ok sha256 r | ScanError e \<Rightarrow> False)"

text \<open>The statement that inserts a row.\<close>

definition insert_of :: "row \<Rightarrow> stmt" where
  "insert_of r = InsertInto (ID r) (rand r) (hash r)"

text \<open>A run of generate got past its insert loop exactly when it returned or panicked on
  the division of the last line it writes: every \<open>log.Fatalf\<close> and the call through a nil
  statement come before the end of the loop.\<close>

definition inserts_completed :: "run \<Rightarrow> bool" where
  "inserts_completed r =
     (outcome r = Return \<or> outcome r = Panicked IntegerDivideByZero)"

subsection \<open>Concrete inputs\<close>

text \<open>A small stand-in for the digest, an environment without faults and a store holding
  rows of an earlier run, for evaluating runs.\<close>

definition checksum :: "byte list \<Rightarrow> byte list" where
  "checksum bs = [fold (\<lambda>x y. x XOR y) bs 0, of_nat (length bs)]"

definition quiet :: env where
  "quiet =
     \<lparr>open_err = None, drop_err = None, create_err = None, prepare_err = None,
      rand_read = (\<lambda>k. Inr [of_nat k, 0x1f, 0xa0, 0x03, 0x04, 0x05, 0x06, 0x07]),
      insert_err = (\<lambda>k. None), vacuum_err = None, db_close_err = None,
      query_err = None, fetched = [], iter_err = None, rows_close_err = None,
      clock_start = 0, clock_stop = 4000000000\<rparr>"

definition old_store :: store where
  "old_store =
     \<lparr>bench_table = Some [\<lparr>ID = 0, rand = ''00'', hash = ''zz''\<rparr>,
                           \<lparr>ID = 7, rand = ''07'', hash = ''0g''\<rparr>],
      executed = []\<rparr>"

definition three_records :: config where
  "three_records = default_config\<lparr>numRecs := 3\<rparr>"

definition good_row :: row where
  "good_row = \<lparr>ID = 0, rand = ''0102'', hash = ''0302''\<rparr>"

definition bad_hex_row :: row where
  "bad_hex_row = \<lparr>ID = 1, rand = ''0g'', hash = ''0302''\<rparr>"

definition tampered_row :: row where
  "tampered_row = \<lparr>ID = 2, rand = ''0102'', hash = ''ffff''\<rparr>"

definition tampered_env :: env where
  "tampered_env = quiet\<lparr>fetched := [Scanned good_row, Scanned tampered_row, Scanned good_row]\<rparr>"

definition skipping_env :: env where
  "skipping_env = quiet\<lparr>fetched := [Scanned good_row, Scanned bad_hex_row]\<rparr>"

definition close_fails :: env where
  "close_fails =
     quiet\<lparr>fetched := [Scanned good_row], rows_close_err := Some ''database is locked''\<rparr>"

definition closes_fail :: env where
  "closes_fail =
     quiet\<lparr>fetched := [Scanned good_row, Scanned good_row],
           rows_close_err := Some ''database is locked'',
           db_close_err := Some ''disk I/O error''\<rparr>"

definition iteration_fails :: env where
  "iteration_fails =
     quiet\<lparr>fetched := [Scanned good_row], iter_err := Some ''disk I/O error''\<rparr>"

definition locked_prepare :: env where
  "locked_prepare = quiet\<lparr>prepare_err := Some ''database is locked''\<rparr>"

definition minus_one_record :: config where
  "minus_one_record = default_config\<lparr>numRecs := - 1\<rparr>"

definition other_bytes :: env where
  "other_bytes =
     quiet\<lparr>rand_read := (\<lambda>k. Inr [0xff, of_nat k, 0x10, 0x20, 0x30, 0x40, 0x50, 0x60])\<rparr>"

definition interval_five :: config where
  "interval_five = default_config\<lparr>logSeconds := 5\<rparr>"

section \<open>Properties\<close>

subsection \<open>Hexadecimal text\<close>

lemma lt16: "(n::nat) < 16 \<Longrightarrow> n \<in> {0, 1, 2, 3, 4, 5, 6, 7, 8, 9, 10, 11, 12, 13, 14, 15}"
  by (simp only: insert_iff empty_iff) presburger

lemma fromHexChar_hextable: "n < 16 \<Longrightarrow> fromHexChar (hextable ! n) = Some (of_nat n)"
  by (drule lt16) (auto simp: hextable_def fromHexChar_def)

lemma high_nibble_less: "unat (drop_bit 4 (v::byte)) < 16"
proof -
  have "unat v < 256" using unsigned_less [of v, where ?'a = nat] by simp
  moreover have "unat (drop_bit 4 v) = unat v div 16"
    by (simp add: drop_bit_eq_div unat_div)
  ultimately show ?thesis by simp
qed

lemma low_nibble_take_bit: "(v::byte) AND 0x0f = take_bit 4 v"
  by (simp add: take_bit_eq_mask mask_eq_exp_minus_1)

lemma low_nibble_less: "unat ((v::byte) AND 0x0f) < 16"
proof -
  have "unat (take_bit 4 v) = unat v mod 16"
    by (simp add: take_bit_eq_mod unat_mod)
  then show ?thesis by (simp add: low_nibble_take_bit)
qed

lemma nibbles_join: "push_bit 4 (drop_bit 4 (v::byte)) OR (v AND 0x0f) = v"
  unfolding low_nibble_take_bit
  by (rule bit_eqI) (auto simp add: bit_simps)

lemma fromHexChar_encode:
  "fromHexChar (hextable ! unat (drop_bit 4 (v::byte))) = Some (drop_bit 4 v)"
  "fromHexChar (hextable ! unat (v AND 0x0f)) = Some (v AND 0x0f)"
  using fromHexChar_hextable [OF high_nibble_less [of v]]
    fromHexChar_hextable [OF low_nibble_less [of v]] by simp_all

text \<open>Decoding what \<open>hex.EncodeToString\<close> wrote gives the bytes back.\<close>

lemma hex_decode_encode: "hex_decode (hex_encode src) = Inr src"
  by (induction src) (simp_all add: encode_byte_def fromHexChar_encode nibbles_join)

subsection \<open>The store and the insert loop\<close>

lemma db_exec_insert_None:
  assumes "db_exec fault (InsertInto k r d) s = (None, s')"
  shows "\<exists>rows. bench_table s = Some rows \<and> k \<notin> ID ` set rows
           \<and> bench_table s' = Some (rows @ [\<lparr>ID = k, rand = r, hash = d\<rparr>])
           \<and> executed s' = executed s @ [InsertInto k r d]"
  using assms
  by (auto simp: db_exec_def Let_def split: option.splits sum.splits if_splits)

lemma insert_loop_rows:
  assumes "insert_loop sha256 ev st n i h s = (None, j, s')"
    and "h = []" and "bench_table s = Some rows"
  shows "\<exists>new. bench_table s' = Some (rows @ new) \<and> map ID new = [i..n - 1]
           \<and> (\<forall>x\<in>set new. row_ok sha256 x)
           \<and> executed s' = executed s @ map insert_of new"
  using assms
proof (induction sha256 ev st n i h s arbitrary: rows rule: insert_loop.induct)
  case (1 sha256 ev st n i h s)
  show ?case
  proof (cases "i < n")
    case False
    with "1.prems" show ?thesis by (simp add: insert_loop.simps)
  next
    case True
    note step = insert_loop.simps [of sha256 ev st n i h s]
    from True "1.prems"(1) obtain b where b: "rand_read ev (nat i) = Inr b"
      by (cases "rand_read ev (nat i)") (auto simp: insert_loop.simps)
    from True "1.prems"(1) b have st: "st = InsertStmt"
      by (cases st) (auto simp: insert_loop.simps)
    let ?q = "InsertInto i (hex_encode b) (hex_encode (sha256 (h @ b)))"
    from True "1.prems"(1) b st obtain s1 where
      ex: "db_exec (insert_err ev (nat i)) ?q s = (None, s1)"
      and rec: "insert_loop sha256 ev st n (i + 1) [] s1 = (None, j, s')"
      by (cases "db_exec (insert_err ev (nat i)) ?q s") (auto simp: insert_loop.simps split: option.splits)
    let ?r = "\<lparr>ID = i, rand = hex_encode b, hash = hex_encode (sha256 (h @ b))\<rparr>"
    from db_exec_insert_None [OF ex] "1.prems"(3)
    have t1: "bench_table s1 = Some (rows @ [?r])"
      and e1: "executed s1 = executed s @ [?q]" by auto
    from "1.IH" [OF True b refl st ex [symmetric] refl rec refl t1]
    obtain new where new: "bench_table s' = Some ((rows @ [?r]) @ new)"
      "map ID new = [i + 1..n - 1]" "\<forall>x\<in>set new. row_ok sha256 x"
      "executed s' = executed s1 @ map insert_of new"
      by auto
    have "[i..n - 1] = i # [i + 1..n - 1]"
      using True by (simp add: upto_rec1)
    moreover have "row_ok sha256 ?r"
      using "1.prems"(2) by (simp add: row_ok_def hex_decode_encode)
    ultimately show ?thesis
      using new e1
      by (intro exI [of _ "?r # new"]) (simp add: insert_of_def)
  qed
qed


lemma db_exec_drop:
  assumes "db_exec fault DropTableIfExists s = (None, s')"
  shows "bench_table s' = None \<and> executed s' = executed s @ [DropTableIfExists]"
  using assms by (auto simp: db_exec_def Let_def split: option.splits)

lemma db_exec_create:
  assumes "db_exec fault CreateTable s = (None, s')"
  shows "bench_table s' = Some [] \<and> executed s' = executed s @ [CreateTable]"
  using assms by (auto simp: db_exec_def Let_def split: option.splits sum.splits)

lemma db_exec_vacuum:
  assumes "db_exec fault Vacuum s = (x, s')"
  shows "bench_table s' = bench_table s \<and> executed s' = executed s @ [Vacuum]"
  using assms by (auto simp: db_exec_def Let_def split: option.splits)

lemma insert_loop_abort:
  "insert_loop sha256 ev st n i h s = (Some a, j, s') \<Longrightarrow>
     (\<exists>m. a = Fatal m) \<or> a = Panic NilPointerDereference"
proof (induction sha256 ev st n i h s rule: insert_loop.induct)
  case (1 sha256 ev st n i h s)
  note step = insert_loop.simps [of sha256 ev st n i h s]
  show ?case
  proof (cases "i < n")
    case False
    with "1.prems" show ?thesis by (simp add: insert_loop.simps)
  next
    case True
    show ?thesis
    proof (cases "rand_read ev (nat i)")
      case (Inl e)
      with True "1.prems" show ?thesis by (auto simp: insert_loop.simps)
    next
      case (Inr b)
      show ?thesis
      proof (cases st)
        case NilStmt
        with True Inr "1.prems" show ?thesis by (auto simp: insert_loop.simps)
      next
        case InsertStmt
        obtain x y where ex: "db_exec (insert_err ev (nat i))
            (InsertInto i (hex_encode b) (hex_encode (sha256 (h @ b)))) s = (x, y)"
          by (cases "db_exec (insert_err ev (nat i))
            (InsertInto i (hex_encode b) (hex_encode (sha256 (h @ b)))) s")
        show ?thesis
        proof (cases x)
          case None
          with True Inr InsertStmt ex "1.prems"
          have "insert_loop sha256 ev st n (i + 1) [] y = (Some a, j, s')" by (simp add: insert_loop.simps)
          from "1.IH" [OF True Inr refl InsertStmt ex [symmetric] None this]
          show ?thesis .
        next
          case (Some e)
          with True Inr InsertStmt ex "1.prems" show ?thesis by (auto simp: insert_loop.simps)
        qed
      qed
    qed
  qed
qed

lemma generateCmd_loop_done:
  assumes "generateCmd sha256 ev cfg s0 = (r, s)"
    and "outcome r = Return \<or> outcome r = Panicked IntegerDivideByZero"
  shows "\<exists>s1 s2 s3 st i. db_exec (drop_err ev) DropTableIfExists s0 = (None, s1)
           \<and> db_exec (create_err ev) CreateTable s1 = (None, s2)
           \<and> insert_loop sha256 ev st (numRecs cfg) 0 [] s2 = (None, i, s3)
           \<and> bench_table s = bench_table s3
           \<and> (executed s = executed s3 \<or> executed s = executed s3 @ [Vacuum])"
  using assms
  apply (simp add: generateCmd_def Let_def finish_def
         split: option.splits prod.splits if_splits abort.splits)
       apply (auto dest!: insert_loop_abort db_exec_vacuum)
  done


lemma generateCmd_table:
  assumes "generateCmd sha256 ev cfg s0 = (r, s)" and "inserts_completed r"
  shows "\<exists>rows. bench_table s = Some rows \<and> map ID rows = [0..numRecs cfg - 1]
           \<and> (\<forall>x\<in>set rows. row_ok sha256 x)
           \<and> (executed s = executed s0 @ [DropTableIfExists, CreateTable] @ map insert_of rows
              \<or> executed s = executed s0 @ [DropTableIfExists, CreateTable] @ map insert_of rows
                   @ [Vacuum])"
proof -
  from generateCmd_loop_done [OF assms(1)] assms(2)
  obtain s1 s2 s3 st i where
    d: "db_exec (drop_err ev) DropTableIfExists s0 = (None, s1)"
    and c: "db_exec (create_err ev) CreateTable s1 = (None, s2)"
    and l: "insert_loop sha256 ev st (numRecs cfg) 0 [] s2 = (None, i, s3)"
    and t: "bench_table s = bench_table s3"
    and e: "executed s = executed s3 \<or> executed s = executed s3 @ [Vacuum]"
    by (auto simp: inserts_completed_def)
  from db_exec_drop [OF d] db_exec_create [OF c]
  have t2: "bench_table s2 = Some []"
    and e2: "executed s2 = executed s0 @ [DropTableIfExists, CreateTable]" by auto
  from insert_loop_rows [OF l refl t2]
  obtain new where "bench_table s3 = Some new" "map ID new = [0..numRecs cfg - 1]"
    "\<forall>x\<in>set new. row_ok sha256 x" "executed s3 = executed s2 @ map insert_of new"
    by auto
  with t e e2 show ?thesis by auto
qed


lemma insert_loop_nonpositive:
  "n \<le> 0 \<Longrightarrow> insert_loop sha256 ev st n 0 h s = (None, 0, s)"
  by (simp add: insert_loop.simps)

lemma generateCmd_nonpositive:
  assumes "numRecs cfg \<le> 0" and "open_err ev = None" and "drop_err ev = None"
    and "create_err ev = None"
  shows "outcome (fst (generateCmd sha256 ev cfg s0)) =
           (if numRecs cfg = 0 then Panicked IntegerDivideByZero else Return)
         \<and> bench_table (snd (generateCmd sha256 ev cfg s0)) = Some []
         \<and> executed (snd (generateCmd sha256 ev cfg s0)) =
             executed s0 @ [DropTableIfExists, CreateTable]
             @ (if vacuum cfg \<and> numRecs cfg \<noteq> 0 then [Vacuum] else [])"
  using assms
  by (simp add: generateCmd_def db_exec_def Let_def insert_loop_nonpositive finish_def
        split: prod.splits option.splits)


subsection \<open>generate\<close>

text \<open>
  C1. Whenever generate gets past its insert loop, for any requested count (negative counts
  included, which behave as 0), the table holds exactly that many rows, their ids are
  0, 1, ... in the order of insertion, every row satisfies \<open>row_ok\<close> (the \<open>hash\<close> column
  is the hexadecimal digest of the decoded \<open>rand\<close> column), and the statements the run
  executed are the drop, the create and then one insert per row in the order of the rows
  (followed by the vacuum when it was asked for).
\<close>

theorem generate_rows:
  assumes "generateCmd sha256 ev cfg s0 = (r, s)" and "inserts_completed r"
  shows "\<exists>rows. bench_table s = Some rows
           \<and> length rows = nat (numRecs cfg)
           \<and> map ID rows = [0..numRecs cfg - 1]
           \<and> (\<forall>x\<in>set rows. row_ok sha256 x)
           \<and> (executed s = executed s0 @ [DropTableIfExists, CreateTable] @ map insert_of rows
              \<or> executed s = executed s0 @ [DropTableIfExists, CreateTable] @ map insert_of rows
                   @ [Vacuum])"
proof -
  from generateCmd_table [OF assms] obtain rows where
    rows: "bench_table s = Some rows" "map ID rows = [0..numRecs cfg - 1]"
      "\<forall>x\<in>set rows. row_ok sha256 x"
      "executed s = executed s0 @ [DropTableIfExists, CreateTable] @ map insert_of rows
       \<or> executed s = executed s0 @ [DropTableIfExists, CreateTable] @ map insert_of rows
            @ [Vacuum]"
    by blast
  have "length (map ID rows) = nat (numRecs cfg)"
    by (simp only: rows(2)) simp
  then have "length rows = nat (numRecs cfg)" by simp
  with rows show ?thesis by blast
qed

lemma three_run:
  "generateCmd checksum quiet three_records old_store =
     (\<lparr>outcome = Return,
       printed = [Generating 3, OpeningDatabase, DroppingTable, CreatingTable, SettingUp,
                  StartingInserts, Written 3 3, AverageTimePerRecord 1333333333],
       discarded = []\<rparr>,
      \<lparr>bench_table = Some [\<lparr>ID = 0, rand = ''001fa00304050607'', hash = ''bc08''\<rparr>,
                            \<lparr>ID = 1, rand = ''011fa00304050607'', hash = ''bd08''\<rparr>,
                            \<lparr>ID = 2, rand = ''021fa00304050607'', hash = ''be08''\<rparr>],
       executed = [DropTableIfExists, CreateTable,
                   InsertInto 0 ''001fa00304050607'' ''bc08'',
                   InsertInto 1 ''011fa00304050607'' ''bd08'',
                   InsertInto 2 ''021fa00304050607'' ''be08'']\<rparr>)"
  by code_simp


theorem generate_rows_witness:
  "inserts_completed (fst (generateCmd checksum quiet three_records old_store))
   \<and> (\<exists>rows. bench_table (snd (generateCmd checksum quiet three_records old_store)) = Some rows
         \<and> length rows = 3
         \<and> map ID rows = [0, 1, 2]
         \<and> (\<forall>x\<in>set rows. row_ok checksum x))"
proof -
  have c: "inserts_completed (fst (generateCmd checksum quiet three_records old_store))"
    by (simp add: three_run inserts_completed_def)
  have n: "numRecs three_records = 3"
    by (simp add: three_records_def default_config_def)
  have u: "[0..2::int] = [0, 1, 2]"
    by code_simp
  from generate_rows [OF surjective_pairing c]
  show ?thesis using c by (auto simp: n u)
qed

text \<open>
  C7. Two runs of generate for the same count, one after the other, each getting past its
  insert loop: the table after the second run has as many rows as after the first, with
  the same ids in the same order, whatever the first run found in the store and whatever
  the two runs drew at random.
\<close>

theorem generate_twice:
  assumes "generateCmd sha256 ev1 cfg s0 = (r1, s1)" and "inserts_completed r1"
    and "generateCmd sha256 ev2 cfg' s1 = (r2, s2)" and "inserts_completed r2"
    and "numRecs cfg' = numRecs cfg"
  shows "\<exists>rows1 rows2. bench_table s1 = Some rows1 \<and> bench_table s2 = Some rows2
           \<and> length rows2 = length rows1 \<and> map ID rows2 = map ID rows1
           \<and> length rows2 = nat (numRecs cfg)"
proof -
  from generateCmd_table [OF assms(1,2)] obtain rows1 where
    r1: "bench_table s1 = Some rows1" "map ID rows1 = [0..numRecs cfg - 1]" by blast
  from generateCmd_table [OF assms(3,4)] assms(5) obtain rows2 where
    r2: "bench_table s2 = Some rows2" "map ID rows2 = [0..numRecs cfg - 1]" by auto
  have "length rows2 = nat (numRecs cfg)"
    using arg_cong [OF r2(2), of length] by simp
  moreover have "length rows1 = nat (numRecs cfg)"
    using arg_cong [OF r1(2), of length] by simp
  ultimately show ?thesis
    using r1 r2 by simp
qed

lemma second_run:
  "generateCmd checksum other_bytes three_records
     (snd (generateCmd checksum quiet three_records old_store)) =
     (\<lparr>outcome = Return,
       printed = [Generating 3, OpeningDatabase, DroppingTable, CreatingTable, SettingUp,
                  StartingInserts, Written 3 3, AverageTimePerRecord 1333333333],
       discarded = []\<rparr>,
      \<lparr>bench_table = Some [\<lparr>ID = 0, rand = ''ff00102030405060'', hash = ''8f08''\<rparr>,
                            \<lparr>ID = 1, rand = ''ff01102030405060'', hash = ''8e08''\<rparr>,
                            \<lparr>ID = 2, rand = ''ff02102030405060'', hash = ''8d08''\<rparr>],
       executed = [DropTableIfExists, CreateTable,
                   InsertInto 0 ''001fa00304050607'' ''bc08'',
                   InsertInto 1 ''011fa00304050607'' ''bd08'',
                   InsertInto 2 ''021fa00304050607'' ''be08'',
                   DropTableIfExists, CreateTable,
                   InsertInto 0 ''ff00102030405060'' ''8f08'',
                   InsertInto 1 ''ff01102030405060'' ''8e08'',
                   InsertInto 2 ''ff02102030405060'' ''8d08'']\<rparr>)"
  by code_simp

theorem generate_twice_witness:
  "inserts_completed (fst (generateCmd checksum quiet three_records old_store))
   \<and> inserts_completed
        (fst (generateCmd checksum other_bytes three_records
           (snd (generateCmd checksum quiet three_records old_store))))
   \<and> (\<exists>rows1 rows2.
         bench_table (snd (generateCmd checksum quiet three_records old_store)) = Some rows1
         \<and> bench_table
              (snd (generateCmd checksum other_bytes three_records
                 (snd (generateCmd checksum quiet three_records old_store)))) = Some rows2
         \<and> length rows2 = length rows1 \<and> map ID rows2 = map ID rows1 \<and> length rows2 = 3)"
proof -
  have c1: "inserts_completed (fst (generateCmd checksum quiet three_records old_store))"
    by (simp add: three_run inserts_completed_def)
  have c2: "inserts_completed
        (fst (generateCmd checksum other_bytes three_records
           (snd (generateCmd checksum quiet three_records old_store))))"
    by (simp add: second_run inserts_completed_def)
  have n: "nat (numRecs three_records) = 3"
    by code_simp
  from generate_twice [OF surjective_pairing c1 surjective_pairing c2 refl] c1 c2 n
  show ?thesis by simp
qed

text \<open>
  C10. For every requested count that is zero or negative, when the store opens and the
  drop and the create succeed, generate has executed exactly the drop and the create (and
  the vacuum, when asked for and the count is negative) and no insert, and leaves the table
  present and empty, whatever it held before. The command then returns for a negative
  count; for the count 0 it panics on the division of its last line.
\<close>

theorem generate_nonpositive:
  assumes "numRecs cfg \<le> 0" and "open_err ev = None" and "drop_err ev = None"
    and "create_err ev = None"
  shows "outcome (fst (generateCmd sha256 ev cfg s0)) =
           (if numRecs cfg = 0 then Panicked IntegerDivideByZero else Return)
         \<and> bench_table (snd (generateCmd sha256 ev cfg s0)) = Some []
         \<and> executed (snd (generateCmd sha256 ev cfg s0)) =
             executed s0 @ [DropTableIfExists, CreateTable]
             @ (if vacuum cfg \<and> numRecs cfg \<noteq> 0 then [Vacuum] else [])"
  using assms by (rule generateCmd_nonpositive)

theorem generate_nonpositive_witness:
  "numRecs minus_one_record \<le> 0
   \<and> bench_table old_store =
       Some [\<lparr>ID = 0, rand = ''00'', hash = ''zz''\<rparr>, \<lparr>ID = 7, rand = ''07'', hash = ''0g''\<rparr>]
   \<and> outcome (fst (generateCmd checksum quiet minus_one_record old_store)) = Return
   \<and> bench_table (snd (generateCmd checksum quiet minus_one_record old_store)) = Some []
   \<and> executed (snd (generateCmd checksum quiet minus_one_record old_store)) =
       [DropTableIfExists, CreateTable]"
proof -
  have n: "numRecs minus_one_record \<le> 0" "numRecs minus_one_record \<noteq> 0"
    "\<not> vacuum minus_one_record"
    by (simp_all add: minus_one_record_def default_config_def)
  have q: "open_err quiet = None" "drop_err quiet = None" "create_err quiet = None"
    by (simp_all add: quiet_def)
  have o: "bench_table old_store =
       Some [\<lparr>ID = 0, rand = ''00'', hash = ''zz''\<rparr>, \<lparr>ID = 7, rand = ''07'', hash = ''0g''\<rparr>]"
    "executed old_store = []"
    by (simp_all add: old_store_def)
  from generate_nonpositive [OF n(1) q, of checksum old_store] n o
  show ?thesis by simp
qed

text \<open>
  C6, at a failing input. When \<open>db.Prepare\<close> fails, generate does not stop: its error is
  dropped. For a negative count the command returns (exit status 0); for a positive count
  it goes on to read random bytes and panics on the call through the nil statement, with no
  message of its own.
\<close>

theorem prepare_error_dropped:
  "generateCmd checksum locked_prepare minus_one_record old_store =
     (\<lparr>outcome = Return,
       printed = [Generating (- 1), OpeningDatabase, DroppingTable, CreatingTable, SettingUp,
                  StartingInserts, Written 0 (- 1), AverageTimePerRecord (- 4000000000)],
       discarded = [''database is locked'']\<rparr>,
      \<lparr>bench_table = Some [], executed = [DropTableIfExists, CreateTable]\<rparr>)
   \<and> generateCmd checksum locked_prepare three_records old_store =
     (\<lparr>outcome = Panicked NilPointerDereference,
       printed = [Generating 3, OpeningDatabase, DroppingTable, CreatingTable, SettingUp,
                  StartingInserts],
       discarded = [''database is locked'']\<rparr>,
      \<lparr>bench_table = Some [], executed = [DropTableIfExists, CreateTable]\<rparr>)"
  by code_simp

subsection \<open>The loop of bench\<close>

lemma passable_simps [simp]:
  "passable sha256 (Scanned r) = (undecodable r \<or> row_ok sha256 r)"
  "passable sha256 (ScanError e) = False"
  by (simp_all add: passable_def)

lemma verified_simps [simp]:
  "verified sha256 (Scanned r) = row_ok sha256 r"
  "verified sha256 (ScanError e) = False"
  by (simp_all add: verified_def)

lemma bench_loop_None:
  "bench_loop sha256 xs i h once out = (None, j, out') \<Longrightarrow>
     list_all (passable sha256) xs \<and> j = i + int (length (filter (verified sha256) xs))"
proof (induction sha256 xs i h once out rule: bench_loop.induct)
  case (1 sha256 i h once out)
  then show ?case by simp
next
  case (2 sha256 e rest i h once out)
  then show ?case by simp
next
  case (3 sha256 r rest i h once out)
  show ?case
  proof (cases "hex_decode (rand r)")
    case (Inl e)
    then have "undecodable r" "\<not> row_ok sha256 r"
      by (simp_all add: undecodable_def row_ok_def)
    with Inl "3.prems" "3.IH"(1) [OF refl refl Inl] show ?thesis
      by simp
  next
    case (Inr v)
    with "3.prems" have eq: "hex_encode (sha256 v) = hash r"
      by (auto simp: Let_def split: if_splits)
    with Inr have "row_ok sha256 r"
      by (simp add: row_ok_def)
    with eq "3.prems" Inr "3.IH"(2) [OF refl refl Inr refl] show ?thesis
      by simp
  qed
qed

lemma bench_loop_abort:
  "bench_loop sha256 xs i h once out = (Some a, j, out') \<Longrightarrow> \<exists>m. a = Fatal m"
proof (induction sha256 xs i h once out rule: bench_loop.induct)
  case (1 sha256 i h once out)
  then show ?case by simp
next
  case (2 sha256 e rest i h once out)
  then show ?case by auto
next
  case (3 sha256 r rest i h once out)
  show ?case
  proof (cases "hex_decode (rand r)")
    case (Inl e)
    with "3.prems" "3.IH"(1) [OF refl refl Inl] show ?thesis by simp
  next
    case (Inr v)
    show ?thesis
    proof (cases "hex_encode (sha256 v) = hash r")
      case True
      with "3.prems" Inr "3.IH"(2) [OF refl refl Inr refl] show ?thesis by simp
    next
      case False
      with "3.prems" Inr show ?thesis by auto
    qed
  qed
qed

lemma bench_loop_stops:
  assumes "\<not> list_all (passable sha256) xs"
  shows "\<exists>m j out'. bench_loop sha256 xs i h once out = (Some (Fatal m), j, out')"
proof -
  obtain a j out' where res: "bench_loop sha256 xs i h once out = (a, j, out')"
    by (cases "bench_loop sha256 xs i h once out")
  show ?thesis
  proof (cases a)
    case None
    with res bench_loop_None assms show ?thesis by blast
  next
    case (Some b)
    with res bench_loop_abort obtain m where "b = Fatal m" by blast
    with res Some show ?thesis by simp
  qed
qed

lemma benchCmd_Exit1:
  assumes "open_err ev \<noteq> None \<or> query_err ev \<noteq> None
           \<or> \<not> list_all (passable sha256) (fetched ev) \<or> iter_err ev \<noteq> None"
  shows "outcome (benchCmd sha256 ev cfg) = Exit1"
proof (cases "list_all (passable sha256) (fetched ev)")
  case False
  from bench_loop_stops [OF False]
  obtain m j out' where
    "bench_loop sha256 (fetched ev) 0 [] False [RunningBenchmark, TimeAfterQuery, BeginningLoop]
       = (Some (Fatal m), j, out')"
    by blast
  then show ?thesis
    by (simp add: benchCmd_def Let_def finish_def split: option.splits)
next
  case True
  with assms show ?thesis
    by (auto simp: benchCmd_def Let_def finish_def split: option.splits prod.splits
             dest: bench_loop_abort)
qed

lemma benchCmd_not_Exit1:
  assumes "outcome (benchCmd sha256 ev cfg) \<noteq> Exit1"
  shows "open_err ev = None \<and> query_err ev = None
         \<and> list_all (passable sha256) (fetched ev) \<and> iter_err ev = None"
  using assms benchCmd_Exit1 [of ev sha256 cfg] by blast

lemma benchCmd_completes:
  assumes "outcome (benchCmd sha256 ev cfg) \<noteq> Exit1"
  shows "\<exists>pre. bench_loop sha256 (fetched ev) 0 [] False
                  [RunningBenchmark, TimeAfterQuery, BeginningLoop]
                = (None, int (length (filter (verified sha256) (fetched ev))), pre)"
proof -
  obtain a j pre where res: "bench_loop sha256 (fetched ev) 0 [] False
      [RunningBenchmark, TimeAfterQuery, BeginningLoop] = (a, j, pre)"
    by (cases "bench_loop sha256 (fetched ev) 0 [] False
      [RunningBenchmark, TimeAfterQuery, BeginningLoop]")
  from benchCmd_not_Exit1 [OF assms]
  have ok: "open_err ev = None" "query_err ev = None" by auto
  have "a = None"
  proof (cases a)
    case (Some b)
    with res bench_loop_abort obtain m where "b = Fatal m" by blast
    with res Some ok assms show ?thesis
      by (simp add: benchCmd_def Let_def finish_def)
  qed simp
  with res bench_loop_None [of sha256 "fetched ev" 0 "[]" False _ j pre] show ?thesis
    by simp
qed

lemma benchCmd_printed:
  assumes "outcome (benchCmd sha256 ev cfg) \<noteq> Exit1"
  shows "\<exists>pre. printed (benchCmd sha256 ev cfg) =
           pre @ [RowsProcessed (int (length (filter (verified sha256) (fetched ev)))),
                  FinishedLoop]
           @ (if outcome (benchCmd sha256 ev cfg) = Return
              then [AveragePerRecord
                      (quo (clock_stop ev - clock_start ev)
                         (int (length (filter (verified sha256) (fetched ev)))))
                      (clock_stop ev - clock_start ev)]
              else [])"
proof -
  from benchCmd_completes [OF assms] obtain pre where
    l: "bench_loop sha256 (fetched ev) 0 [] False
          [RunningBenchmark, TimeAfterQuery, BeginningLoop]
        = (None, int (length (filter (verified sha256) (fetched ev))), pre)"
    by blast
  from benchCmd_not_Exit1 [OF assms]
  have ok: "open_err ev = None" "query_err ev = None" "iter_err ev = None" by auto
  show ?thesis
    by (simp add: benchCmd_def Let_def finish_def ok l)
qed


lemma not_list_all: "x \<in> set xs \<Longrightarrow> \<not> P x \<Longrightarrow> \<not> list_all P xs"
  by (auto simp: list_all_iff)

text \<open>The runs of bench on the concrete inputs.\<close>

lemma tampered_run:
  "benchCmd checksum tampered_env default_config =
     \<lparr>outcome = Exit1,
      printed = [RunningBenchmark, TimeAfterQuery, BeginningLoop,
                 FirstResult 0 ''0102'' ''0302'', HashMismatch],
      discarded = []\<rparr>"
  by code_simp

lemma skipping_run:
  "benchCmd checksum skipping_env default_config =
     \<lparr>outcome = Return,
      printed = [RunningBenchmark, TimeAfterQuery, BeginningLoop,
                 FirstResult 0 ''0102'' ''0302'',
                 CouldNotDecode (InvalidByteError CHR ''g''),
                 RowsProcessed 1, FinishedLoop,
                 AveragePerRecord 4000000000 4000000000],
      discarded = []\<rparr>"
  by code_simp

lemma iteration_fails_run:
  "benchCmd checksum iteration_fails default_config =
     \<lparr>outcome = Exit1,
      printed = [RunningBenchmark, TimeAfterQuery, BeginningLoop,
                 FirstResult 0 ''0102'' ''0302'', RowsProcessed 1, FinishedLoop,
                 FatalErr ''disk I/O error''],
      discarded = []\<rparr>"
  by code_simp

lemma benchCmd_close_irrelevant:
  "outcome (benchCmd sha256 (ev\<lparr>rows_close_err := c\<rparr>) cfg) = outcome (benchCmd sha256 ev cfg)"
  "printed (benchCmd sha256 (ev\<lparr>rows_close_err := c\<rparr>) cfg) = printed (benchCmd sha256 ev cfg)"
  by (simp_all add: benchCmd_def Let_def finish_def
        split: option.splits prod.splits abort.splits)

lemma benchCmd_closes_irrelevant:
  "outcome (benchCmd sha256 (ev\<lparr>rows_close_err := c, db_close_err := d\<rparr>) cfg)
     = outcome (benchCmd sha256 ev cfg)"
  "printed (benchCmd sha256 (ev\<lparr>rows_close_err := c, db_close_err := d\<rparr>) cfg)
     = printed (benchCmd sha256 ev cfg)"
  by (simp_all add: benchCmd_def Let_def finish_def
        split: option.splits prod.splits abort.splits)

subsection \<open>bench\<close>

text \<open>
  C2. A delivered row whose \<open>rand\<close> column decodes and whose recomputed digest, as
  hexadecimal text, differs from the \<open>hash\<close> column ends the loop at once with
  \<open>log.Fatal\<close>: the rows after it are not looked at, the counter is not incremented and
  no other line is written for it. A run whose cursor delivers such a row anywhere ends
  with exit status 1, never with a return.
\<close>

theorem mismatch_aborts:
  assumes "hex_decode (rand r) = Inr v" and "hex_encode (sha256 v) \<noteq> hash r"
  shows "bench_loop sha256 (Scanned r # rest) i h once out =
           (Some (Fatal HashMismatch), i,
            if once then out else out @ [FirstResult (ID r) (rand r) (hash r)])
         \<and> (Scanned r \<in> set (fetched ev) \<longrightarrow> outcome (benchCmd sha256 ev cfg) = Exit1)"
proof -
  from assms have "\<not> passable sha256 (Scanned r)"
    by (simp add: undecodable_def row_ok_def)
  then have "Scanned r \<in> set (fetched ev) \<Longrightarrow> \<not> list_all (passable sha256) (fetched ev)"
    by (rule not_list_all [rotated])
  with benchCmd_Exit1 [of ev sha256 cfg] assms show ?thesis
    by (auto simp: Let_def)
qed

theorem mismatch_aborts_witness:
  "hex_decode (rand tampered_row) = Inr [1, 2]
   \<and> hex_encode (checksum [1, 2]) \<noteq> hash tampered_row
   \<and> bench_loop checksum [Scanned tampered_row, Scanned good_row] 1 [] True [] =
       (Some (Fatal HashMismatch), 1, [])
   \<and> outcome (benchCmd checksum tampered_env default_config) = Exit1
   \<and> last (printed (benchCmd checksum tampered_env default_config)) = HashMismatch"
proof -
  have d: "hex_decode (rand tampered_row) = Inr [1, 2]" by code_simp
  have m: "hex_encode (checksum [1, 2]) \<noteq> hash tampered_row" by code_simp
  have f: "Scanned tampered_row \<in> set (fetched tampered_env)"
    by (simp add: tampered_env_def)
  from mismatch_aborts [of tampered_row "[1, 2]" checksum "[Scanned good_row]" 1 "[]"
      True "[]" tampered_env default_config, OF d m] f d m
  show ?thesis by (simp add: tampered_run)
qed

text \<open>
  Errors of the deferred \<open>rows.Close()\<close> and \<open>db.Close()\<close> do not end the run either: with
  both failing and no row that fails to decode, bench returns with exit status 0.
\<close>

theorem close_errors_do_not_terminate:
  "rows_close_err closes_fail = Some ''database is locked''
   \<and> db_close_err closes_fail = Some ''disk I/O error''
   \<and> \<not> undecodable good_row
   \<and> fetched closes_fail = [Scanned good_row, Scanned good_row]
   \<and> benchCmd checksum closes_fail default_config =
       \<lparr>outcome = Return,
        printed = [RunningBenchmark, TimeAfterQuery, BeginningLoop,
                   FirstResult 0 ''0102'' ''0302'', RowsProcessed 2, FinishedLoop,
                   AveragePerRecord 2000000000 4000000000],
        discarded = [''database is locked'', ''disk I/O error'']\<rparr>"
  by code_simp

text \<open>
  C3, as the code has it. A delivered row whose \<open>rand\<close> column is not valid hexadecimal
  text is logged (\<open>CouldNotDecode\<close>) and skipped: the loop goes on with the remaining rows
  and the same counter. Among the errors bench checks it is the only one after which the
  run goes on: a run that does not end with exit status 1 saw no open, query, scan or
  iteration error and no digest mismatch, and the count it reports is the number of
  verified rows. The errors of the deferred \<open>rows.Close()\<close> and \<open>db.Close()\<close>, which bench
  does not check, change neither the way the run ends nor what it writes.
\<close>

theorem decode_failure_skips:
  assumes "hex_decode (rand r) = Inl e"
  shows "bench_loop sha256 (Scanned r # rest) i h once out =
           bench_loop sha256 rest i [] True
             ((if once then out else out @ [FirstResult (ID r) (rand r) (hash r)])
              @ [CouldNotDecode e])
         \<and> (outcome (benchCmd sha256 ev cfg) \<noteq> Exit1 \<longrightarrow>
               open_err ev = None \<and> query_err ev = None \<and> iter_err ev = None
               \<and> list_all (passable sha256) (fetched ev)
               \<and> RowsProcessed (int (length (filter (verified sha256) (fetched ev))))
                    \<in> set (printed (benchCmd sha256 ev cfg)))
         \<and> outcome (benchCmd sha256 (ev\<lparr>rows_close_err := c, db_close_err := d\<rparr>) cfg)
             = outcome (benchCmd sha256 ev cfg)
         \<and> printed (benchCmd sha256 (ev\<lparr>rows_close_err := c, db_close_err := d\<rparr>) cfg)
             = printed (benchCmd sha256 ev cfg)"
proof -
  have "outcome (benchCmd sha256 ev cfg) \<noteq> Exit1 \<Longrightarrow>
          RowsProcessed (int (length (filter (verified sha256) (fetched ev))))
            \<in> set (printed (benchCmd sha256 ev cfg))"
    using benchCmd_printed [of sha256 ev cfg] by auto
  with benchCmd_not_Exit1 [of sha256 ev cfg] assms show ?thesis
    by (simp add: Let_def benchCmd_closes_irrelevant)
qed

theorem decode_failure_skips_witness:
  "hex_decode (rand bad_hex_row) = Inl (InvalidByteError CHR ''g'')
   \<and> bench_loop checksum [Scanned bad_hex_row, Scanned good_row] 5 [] True [] =
       (None, 6, [CouldNotDecode (InvalidByteError CHR ''g'')])
   \<and> outcome (benchCmd checksum skipping_env default_config) = Return
   \<and> list_all (passable checksum) (fetched skipping_env)
   \<and> RowsProcessed 1 \<in> set (printed (benchCmd checksum skipping_env default_config))
   \<and> outcome (benchCmd checksum
        (skipping_env\<lparr>rows_close_err := Some ''database is locked'',
                       db_close_err := Some ''disk I/O error''\<rparr>) default_config) = Return"
proof -
  have d: "hex_decode (rand bad_hex_row) = Inl (InvalidByteError CHR ''g'')" by code_simp
  have l: "bench_loop checksum [Scanned good_row] 5 [] True
             ([] @ [CouldNotDecode (InvalidByteError CHR ''g'')]) =
           (None, 6, [CouldNotDecode (InvalidByteError CHR ''g'')])"
    by code_simp
  have n: "int (length (filter (verified checksum) (fetched skipping_env))) = 1"
    by code_simp
  from decode_failure_skips [OF d, of checksum "[Scanned good_row]" 5 "[]" True "[]"
    skipping_env default_config "Some ''disk I/O error''" "Some ''database is locked''"] d l n
  show ?thesis by (simp add: skipping_run)
qed

text \<open>
  C8. When bench returns, the last line it writes is the average: the elapsed time divided
  (Go's truncating quotient) by the number of verified rows, which is positive and at most
  the number of rows read; skipped rows are not counted in the divisor.
\<close>

theorem bench_average:
  assumes "outcome (benchCmd sha256 ev cfg) = Return"
  shows "0 < length (filter (verified sha256) (fetched ev))
         \<and> length (filter (verified sha256) (fetched ev)) \<le> length (fetched ev)
         \<and> last (printed (benchCmd sha256 ev cfg)) =
             AveragePerRecord
               (quo (clock_stop ev - clock_start ev)
                  (int (length (filter (verified sha256) (fetched ev)))))
               (clock_stop ev - clock_start ev)"
proof -
  from assms have ne: "outcome (benchCmd sha256 ev cfg) \<noteq> Exit1" by simp
  from benchCmd_printed [OF ne] assms
  have last: "last (printed (benchCmd sha256 ev cfg)) =
             AveragePerRecord
               (quo (clock_stop ev - clock_start ev)
                  (int (length (filter (verified sha256) (fetched ev)))))
               (clock_stop ev - clock_start ev)"
    by auto
  from benchCmd_completes [OF ne] benchCmd_not_Exit1 [OF ne] assms
  have "int (length (filter (verified sha256) (fetched ev))) \<noteq> 0"
    by (auto simp: benchCmd_def Let_def finish_def split: if_splits)
  with last show ?thesis by simp
qed

theorem bench_average_witness:
  "outcome (benchCmd checksum skipping_env default_config) = Return
   \<and> length (fetched skipping_env) = 2
   \<and> length (filter (verified checksum) (fetched skipping_env)) = 1
   \<and> last (printed (benchCmd checksum skipping_env default_config)) =
       AveragePerRecord 4000000000 4000000000"
proof -
  have o: "outcome (benchCmd checksum skipping_env default_config) = Return"
    by (simp add: skipping_run)
  have n: "length (filter (verified checksum) (fetched skipping_env)) = 1"
    by code_simp
  have t: "length (fetched skipping_env) = 2"
    by code_simp
  have c: "clock_stop skipping_env - clock_start skipping_env = 4000000000"
    by code_simp
  have q: "quo 4000000000 1 = 4000000000"
    by code_simp
  from bench_average [OF o] o n t show ?thesis
    by (simp add: c q)
qed

text \<open>
  A failure of the deferred \<open>rows.Close()\<close> does not abort the run: bench returns with
  exit status 0, and the error is among the discarded ones.
\<close>

theorem close_error_ignored:
  "rows_close_err close_fails = Some ''database is locked''
   \<and> benchCmd checksum close_fails default_config =
       \<lparr>outcome = Return,
        printed = [RunningBenchmark, TimeAfterQuery, BeginningLoop,
                   FirstResult 0 ''0102'' ''0302'', RowsProcessed 1, FinishedLoop,
                   AveragePerRecord 4000000000 4000000000],
        discarded = [''database is locked'']\<rparr>"
  by code_simp

text \<open>
  C9, as the code has it. A failing query, a row that fails to scan and an iteration error
  each end the run of bench with exit status 1; an error of \<open>rows.Close()\<close> changes
  neither the way the run ends nor what it writes.
\<close>

theorem store_errors_fatal:
  "((query_err ev \<noteq> None \<or> iter_err ev \<noteq> None \<or> (\<exists>e. ScanError e \<in> set (fetched ev)))
      \<longrightarrow> outcome (benchCmd sha256 ev cfg) = Exit1)
   \<and> outcome (benchCmd sha256 (ev\<lparr>rows_close_err := c\<rparr>) cfg)
       = outcome (benchCmd sha256 ev cfg)
   \<and> printed (benchCmd sha256 (ev\<lparr>rows_close_err := c\<rparr>) cfg)
       = printed (benchCmd sha256 ev cfg)"
proof -
  have "\<exists>e. ScanError e \<in> set (fetched ev) \<Longrightarrow> \<not> list_all (passable sha256) (fetched ev)"
    by (auto dest: not_list_all [where P = "passable sha256"])
  with benchCmd_Exit1 [of ev sha256 cfg]
  have "query_err ev \<noteq> None \<or> iter_err ev \<noteq> None \<or> (\<exists>e. ScanError e \<in> set (fetched ev))
          \<longrightarrow> outcome (benchCmd sha256 ev cfg) = Exit1"
    by blast
  then show ?thesis
    by (simp only: benchCmd_close_irrelevant)
qed

theorem store_errors_fatal_witness:
  "iter_err iteration_fails \<noteq> None
   \<and> outcome (benchCmd checksum iteration_fails default_config) = Exit1
   \<and> outcome (benchCmd checksum (iteration_fails\<lparr>rows_close_err := Some ''database is locked''\<rparr>)
        default_config) = Exit1
   \<and> last (printed (benchCmd checksum iteration_fails default_config)) = FatalErr ''disk I/O error''"
proof -
  have i: "iter_err iteration_fails \<noteq> None"
    by (simp add: iteration_fails_def)
  from store_errors_fatal [of iteration_fails checksum default_config
    "Some ''database is locked''"] i
  show ?thesis by (simp add: iteration_fails_run)
qed

subsection \<open>Both commands\<close>

text \<open>
  C4, at the failing inputs. With a count of 0 generate panics with an integer division by
  zero when it computes the average time per record, and bench over a cursor that delivers
  no row panics the same way after it has written that 0 rows were processed.
\<close>

theorem zero_records_divide_by_zero:
  "outcome (fst (generateCmd sha256
       (ev\<lparr>open_err := None, drop_err := None, create_err := None\<rparr>)
       (cfg\<lparr>numRecs := 0\<rparr>) s0)) = Panicked IntegerDivideByZero
   \<and> benchCmd sha256
       (ev\<lparr>open_err := None, query_err := None, fetched := [], iter_err := None\<rparr>) cfg =
       \<lparr>outcome = Panicked IntegerDivideByZero,
        printed = [RunningBenchmark, TimeAfterQuery, BeginningLoop, RowsProcessed 0,
                   FinishedLoop],
        discarded = errors_of [rows_close_err ev, db_close_err ev]\<rparr>"
proof -
  have "outcome (fst (generateCmd sha256
       (ev\<lparr>open_err := None, drop_err := None, create_err := None\<rparr>)
       (cfg\<lparr>numRecs := 0\<rparr>) s0)) = Panicked IntegerDivideByZero"
    using generateCmd_nonpositive [of "cfg\<lparr>numRecs := 0\<rparr>"
      "ev\<lparr>open_err := None, drop_err := None, create_err := None\<rparr>" sha256 s0]
    by simp
  then show ?thesis
    by (simp add: benchCmd_def Let_def finish_def)
qed

text \<open>
  C5, at a failing input. With \<open>--interval 5\<close> the variable \<open>logSeconds\<close> is 5, and the
  ticker of generate still has a period of 2 seconds: the flag is bound and never read.
\<close>

theorem ticker_ignores_interval:
  "logSeconds interval_five = 5
   \<and> generate_ticker interval_five = 2 * Second
   \<and> generate_ticker interval_five \<noteq> logSeconds interval_five * Second"
  by code_simp

end
